theory Spec2Isabelle
  imports Complex_Main "HOL-Library.Char_ord" "HOL-Library.List_Lexorder"
begin

section \<open>JavaScript values\<close>

text \<open>
  The handlers are JavaScript: every value they touch (the parsed alert body, the rows the
  store returns, the order parameters, the exchange's reply) is a dynamically typed value.
  Numbers are the finite ones (a double is a rational); an object is the list of its own
  properties in insertion order, with distinct keys.
\<close>

datatype jsval =
    JUndefined
  | JNull
  | JBool bool
  | JNum rat
  | JStr string
  | JArr "jsval list"
  | JObj "(string \<times> jsval) list"

text \<open>ToBoolean: what \<open>if (v)\<close>, \<open>!v\<close>, \<open>v ? a : b\<close> and \<open>v || w\<close> test.\<close>

fun truthy :: "jsval \<Rightarrow> bool" where
  "truthy JUndefined = False"
| "truthy JNull = False"
| "truthy (JBool b) = b"
| "truthy (JNum n) = (n \<noteq> 0)"
| "truthy (JStr s) = (s \<noteq> [])"
| "truthy (JArr xs) = True"
| "truthy (JObj kvs) = True"

text \<open>\<open>a || b\<close>: the left operand when it is truthy, the right one otherwise.\<close>

definition js_or :: "jsval \<Rightarrow> jsval \<Rightarrow> jsval" where
  "js_or a b = (if truthy a then a else b)"

text \<open>\<open>v == null\<close>: the two values on which a property read throws.\<close>

fun nullish :: "jsval \<Rightarrow> bool" where
  "nullish JUndefined = True"
| "nullish JNull = True"
| "nullish v = False"

text \<open>
  \<open>v.k\<close> on a value that is not nullish, for the property names the handlers read
  (none of them is a property of a string, an array or a prototype): the own property of
  an object, \<open>undefined\<close> when there is none.
\<close>

fun js_get :: "jsval \<Rightarrow> string \<Rightarrow> jsval" where
  "js_get (JObj kvs) k = (case map_of kvs k of None \<Rightarrow> JUndefined | Some v \<Rightarrow> v)"
| "js_get v k = JUndefined"

text \<open>\<open>o.k = v\<close> on an object: an existing property keeps its place, a new one is appended.\<close>

fun obj_set :: "(string \<times> jsval) list \<Rightarrow> string \<Rightarrow> jsval \<Rightarrow> (string \<times> jsval) list" where
  "obj_set [] k v = [(k, v)]"
| "obj_set ((k', v') # kvs) k v = (if k' = k then (k, v) # kvs else (k', v') # obj_set kvs k v)"

text \<open>\<open>Object.keys(o)\<close> for an object whose keys are not array indices.\<close>

definition keys :: "(string \<times> jsval) list \<Rightarrow> string list" where
  "keys kvs = map fst kvs"

text \<open>\<open>xs.join(sep)\<close> on a list of strings.\<close>

fun join :: "string \<Rightarrow> string list \<Rightarrow> string" where
  "join sep [] = []"
| "join sep [x] = x"
| "join sep (x # y # ys) = x @ sep @ join sep (y # ys)"

text \<open>
  ToString, as a template literal, \<open>String(v)\<close> and \<open>+\<close> with a string apply it, has two
  outcomes. It throws a TypeError on an object that has a property \<open>toString\<close> of its own:
  in a value made of JSON no property is a function, so the object's own \<open>toString\<close> is
  passed over, \<open>valueOf\<close> gives the object back, and no primitive is found. An array prints
  its elements (\<open>join\<close>), so it throws when one of them does; \<open>null\<close> and \<open>undefined\<close>
  elements print as nothing. \<open>printable\<close> says that ToString does not throw.
\<close>

fun printable :: "jsval \<Rightarrow> bool" and printable_elements :: "jsval list \<Rightarrow> bool" where
  "printable (JArr xs) = printable_elements xs"
| "printable (JObj kvs) = (''toString'' \<notin> set (keys kvs))"
| "printable v = True"
| "printable_elements [] = True"
| "printable_elements (x # xs) = ((nullish x \<or> printable x) \<and> printable_elements xs)"

text \<open>
  The string ToString gives for a printable value. The decimal form of a number is the
  engine's (\<open>Number::toString\<close>), taken as the parameter \<open>num\<close>. Every use below is
  guarded by \<open>printable\<close>.
\<close>

fun js_string :: "(rat \<Rightarrow> string) \<Rightarrow> jsval \<Rightarrow> string" where
  "js_string num JUndefined = ''undefined''"
| "js_string num JNull = ''null''"
| "js_string num (JBool b) = (if b then ''true'' else ''false'')"
| "js_string num (JNum n) = num n"
| "js_string num (JStr s) = s"
| "js_string num (JArr xs) =
     join '','' (map (\<lambda>x. if nullish x then [] else js_string num x) xs)"
| "js_string num (JObj kvs) = ''[object Object]''"

text \<open>The decimal digits of a natural number: \<open>Date.now()\<close> inside a template literal.\<close>

fun digits :: "nat \<Rightarrow> string" where
  "digits n =
     (if n < 10 then [''0123456789'' ! n]
      else digits (n div 10) @ [''0123456789'' ! (n mod 10)])"

declare digits.simps [simp del]

text \<open>Thrown values. The message of a TypeError on a nullish receiver is the engine's (V8).\<close>

datatype exn = Error string | TypeError string | SyntaxError string

fun message :: "exn \<Rightarrow> string" where
  "message (Error m) = m"
| "message (TypeError m) = m"
| "message (SyntaxError m) = m"

definition cannot_read :: "jsval \<Rightarrow> string \<Rightarrow> exn" where
  "cannot_read v k =
     TypeError (''Cannot read properties of '' @ (if v = JNull then ''null'' else ''undefined'')
       @ '' (reading '' @ [CHR 0x27] @ k @ [CHR 0x27] @ '')'')"

text \<open>What ToString throws on a value that is not printable (V8's message).\<close>

definition not_printable :: exn where
  "not_printable = TypeError ''Cannot convert object to primitive value''"

section \<open>Order assembly (processAlert.js, lines 116-128)\<close>

text \<open>
  \<open>orderParams\<close> of \<open>netlify/functions/processAlert.js\<close>. \<open>bot\<close> and \<open>apiKey\<close> are rows of the
  store, already checked to be objects; \<open>alertData\<close> is whatever JSON the caller sent, and
  reading a property of \<open>null\<close> throws.
\<close>

definition orderParams :: "jsval \<Rightarrow> jsval \<Rightarrow> jsval \<Rightarrow> exn + jsval" where
  "orderParams alertData bot' apiKey =
     (if nullish alertData then Inl (cannot_read alertData ''symbol'')
      else Inr (JObj
        [(''apiKey'', js_get apiKey ''api_key''),
         (''apiSecret'', js_get apiKey ''api_secret''),
         (''symbol'', js_or (js_get alertData ''symbol'') (js_get bot' ''symbol'')),
         (''side'', js_or (js_get alertData ''side'') (js_get bot' ''default_side'')),
         (''orderType'', js_or (js_get alertData ''orderType'') (js_get bot' ''default_order_type'')),
         (''quantity'', js_or (js_get alertData ''quantity'') (js_get bot' ''default_quantity'')),
         (''price'', js_get alertData ''price''),
         (''stopLoss'', js_or (js_get alertData ''stopLoss'') (js_get bot' ''default_stop_loss'')),
         (''takeProfit'', js_or (js_get alertData ''takeProfit'') (js_get bot' ''default_take_profit'')),
         (''testnet'', js_get bot' ''test_mode'')]))"

text \<open>
  The same object in the earlier revision of the handler (the second module of
  \<open>netlify/functions/generateWebhook.js\<close>, lines 329-340): only \<open>testnet\<close> differs.
\<close>

definition orderParams_earlier :: "jsval \<Rightarrow> jsval \<Rightarrow> jsval \<Rightarrow> exn + jsval" where
  "orderParams_earlier alertData bot' apiKey =
     (if nullish alertData then Inl (cannot_read alertData ''symbol'')
      else Inr (JObj
        [(''apiKey'', js_get apiKey ''api_key''),
         (''apiSecret'', js_get apiKey ''api_secret''),
         (''symbol'', js_or (js_get alertData ''symbol'') (js_get bot' ''symbol'')),
         (''side'', js_or (js_get alertData ''side'') (js_get bot' ''default_side'')),
         (''orderType'', js_or (js_get alertData ''orderType'') (js_get bot' ''default_order_type'')),
         (''quantity'', js_or (js_get alertData ''quantity'') (js_get bot' ''default_quantity'')),
         (''price'', js_get alertData ''price''),
         (''stopLoss'', js_or (js_get alertData ''stopLoss'') (js_get bot' ''default_stop_loss'')),
         (''takeProfit'', js_or (js_get alertData ''takeProfit'') (js_get bot' ''default_take_profit'')),
         (''testnet'', js_or (js_get apiKey ''test_mode'') (js_get bot' ''test_mode''))]))"

section \<open>The exchange client's venue (bybit.js, lines 5-7 and 37-39)\<close>

definition MAINNET_URL :: string where
  "MAINNET_URL = ''https://api.bybit.com''"

definition TESTNET_URL :: string where
  "TESTNET_URL = ''https://api-testnet.bybit.com''"

text \<open>The destructuring default \<open>testnet = false\<close> applies to \<open>undefined\<close> only.\<close>

definition default_to :: "jsval \<Rightarrow> jsval \<Rightarrow> jsval" where
  "default_to d v = (if v = JUndefined then d else v)"

definition baseUrl :: "jsval \<Rightarrow> string" where
  "baseUrl params =
     (if truthy (default_to (JBool False) (js_get params ''testnet'')) then TESTNET_URL
      else MAINNET_URL)"

section \<open>The platform\<close>

text \<open>
  What the handlers take from the engine's library: \<open>crypto.createHmac('sha256',
  key).update(msg).digest('hex')\<close>, which throws on a key it does not accept; the decimal
  form of a number; the sum of two numbers, which is the double nearest to their exact sum;
  and the text \<open>JSON.stringify\<close> gives for a value.
\<close>

record runtime =
  hmac_sha256_hex :: "jsval \<Rightarrow> string \<Rightarrow> exn + string"
  number_to_string :: "rat \<Rightarrow> string"
  number_add :: "rat \<Rightarrow> rat \<Rightarrow> rat"
  json_stringify :: "jsval \<Rightarrow> string"

definition to_string :: "runtime \<Rightarrow> jsval \<Rightarrow> string" where
  "to_string rt v = js_string (number_to_string rt) v"

text \<open>Whether every property value of an object is printable.\<close>

definition all_printable :: "(string \<times> jsval) list \<Rightarrow> bool" where
  "all_printable params = list_all (\<lambda>key. printable (js_get (JObj params) key)) (keys params)"

section \<open>The legacy signer, in its three revisions\<close>

text \<open>
  \<open>netlify/utils/bybit.js\<close>, lines 10-24, the module the alert handler imports. The signer
  reads the clock itself; the string it signs starts with the timestamp, the parameters
  follow in the order of their sorted keys (\<open>reduce\<close> from the left), and \<open>slice(0, -1)\<close> drops
  the last \<open>&\<close>. Building the string throws when a value is not printable, before the HMAC
  is asked for. The signer returns the timestamp with the signature.
\<close>

definition queryString :: "runtime \<Rightarrow> nat \<Rightarrow> (string \<times> jsval) list \<Rightarrow> string" where
  "queryString rt now params =
     foldl (\<lambda>a b. a @ b @ ''='' @ to_string rt (js_get (JObj params) b) @ ''&'')
       (''timestamp='' @ digits now @ ''&'') (sort (keys params))"

definition generateSignature ::
  "runtime \<Rightarrow> nat \<Rightarrow> jsval \<Rightarrow> (string \<times> jsval) list \<Rightarrow> exn + (string \<times> string)" where
  "generateSignature rt now apiSecret params =
     (if all_printable params then
        (case hmac_sha256_hex rt apiSecret (butlast (queryString rt now params)) of
           Inl e \<Rightarrow> Inl e
         | Inr signature \<Rightarrow> Inr (digits now, signature))
      else Inl not_printable)"

text \<open>
  The later revisions (\<open>unnamed/part_001\<close>, lines 10-28, and \<open>unnamed/part_000\<close>, lines
  54-66) build the string with \<open>map\<close> and \<open>join('&')\<close> over the sorted keys. \<open>sort()\<close> without a
  comparator orders strings by their code units, a proper prefix first: the lexicographic
  order on strings over the order of the character codes.
\<close>

definition queryString_sorted :: "runtime \<Rightarrow> (string \<times> jsval) list \<Rightarrow> string" where
  "queryString_sorted rt params =
     join ''&'' (map (\<lambda>key. key @ ''='' @ to_string rt (js_get (JObj params) key))
       (sort (keys params)))"



section \<open>The exchange client\<close>

text \<open>
  The request parameters of \<open>executeBybitOrder\<close> before signing: \<open>bybit.js\<close>, lines 42-58
  (\<open>part_000\<close>, lines 87-103, and \<open>part_001\<close>, lines 46-62, are the same).
\<close>

definition executeBybitOrder_params :: "jsval \<Rightarrow> (string \<times> jsval) list" where
  "executeBybitOrder_params p =
     (let params =
            [(''api_key'', js_get p ''apiKey''),
             (''symbol'', js_get p ''symbol''),
             (''side'', js_get p ''side''),
             (''order_type'', js_get p ''orderType''),
             (''qty'', js_get p ''quantity''),
             (''time_in_force'', JStr ''GoodTillCancel'')];
          params = (if js_get p ''orderType'' = JStr ''Limit''
                    then obj_set params ''price'' (js_get p ''price'') else params);
          params = (if truthy (js_get p ''stopLoss'')
                    then obj_set params ''stop_loss'' (js_get p ''stopLoss'') else params);
          params = (if truthy (js_get p ''takeProfit'')
                    then obj_set params ''take_profit'' (js_get p ''takeProfit'') else params)
      in params)"

text \<open>A request sent to the exchange: \<open>axios.post(url, data)\<close>.\<close>

record http_post =
  post_url :: string
  post_data :: jsval

text \<open>
  What \<open>executeBybitOrder\<close> of \<open>bybit.js\<close> does with the reply's \<open>response.data\<close> (lines
  68-80): the order result on \<open>ret_code === 0\<close>, a thrown error otherwise.
\<close>

definition order_reply :: "runtime \<Rightarrow> jsval \<Rightarrow> jsval \<Rightarrow> exn + jsval" where
  "order_reply rt p data =
     (if nullish data then Inl (cannot_read data ''ret_code'')
      else if js_get data ''ret_code'' = JNum 0 then
        (let result = js_get data ''result'' in
         if nullish result then Inl (cannot_read result ''order_id'')
         else Inr (JObj
           [(''orderId'', js_get result ''order_id''),
            (''symbol'', js_get p ''symbol''),
            (''side'', js_get p ''side''),
            (''orderType'', js_get p ''orderType''),
            (''qty'', js_get p ''quantity''),
            (''price'', js_get p ''price''),
            (''status'', js_get result ''order_status'')]))
      else if printable (js_get data ''ret_msg'') then
        Inl (Error (''Bybit API error: '' @ to_string rt (js_get data ''ret_msg'')))
      else Inl not_printable)"

text \<open>
  \<open>executeBybitOrder\<close> of \<open>bybit.js\<close> (lines 27-84). The exchange is a function from the
  request to either the message of the error \<open>axios\<close> rejects with or \<open>response.data\<close>. The
  result comes with the requests sent: none when signing throws (line 61 is outside
  \<open>try\<close>), one otherwise. Whatever is thrown inside \<open>try\<close> is thrown again with the prefix of
  line 82.
\<close>

definition executeBybitOrder ::
  "runtime \<Rightarrow> nat \<Rightarrow> (http_post \<Rightarrow> string + jsval) \<Rightarrow> jsval \<Rightarrow> (exn + jsval) \<times> http_post list" where
  "executeBybitOrder rt now exchange p =
     (let params = executeBybitOrder_params p in
      case generateSignature rt now (js_get p ''apiSecret'') params of
        Inl e \<Rightarrow> (Inl e, [])
      | Inr (timestamp, signature) \<Rightarrow>
          (let params = obj_set (obj_set params ''timestamp'' (JStr timestamp)) ''sign'' (JStr signature);
               post = \<lparr>post_url = baseUrl p @ ''/v2/private/order/create'', post_data = JObj params\<rparr>
           in (case exchange post of
                 Inl m \<Rightarrow> Inl (Error (''Failed to execute order: '' @ m))
               | Inr data \<Rightarrow>
                   (case order_reply rt p data of
                      Inl e \<Rightarrow> Inl (Error (''Failed to execute order: '' @ message e))
                    | Inr orderResult \<Rightarrow> Inr orderResult),
               [post])))"

section \<open>The V5 exchange client (bybit.mjs)\<close>

definition MAINNET_URL_v5 :: string where
  "MAINNET_URL_v5 = ''https://api.byhkbit.com''"

definition DEFAULT_RECV_WINDOW :: string where
  "DEFAULT_RECV_WINDOW = ''15000''"

text \<open>
  The JSON payload of \<open>executeBybitOrder\<close>: lines 57 and 64-74. \<open>String(v)\<close> throws on a value
  that is not printable; \<open>v != null\<close> is true of every value but \<open>null\<close> and \<open>undefined\<close>.
\<close>

definition executeBybitOrder_v5_payload :: "runtime \<Rightarrow> jsval \<Rightarrow> exn + (string \<times> jsval) list" where
  "executeBybitOrder_v5_payload rt p =
     (let priced = (js_get p ''orderType'' = JStr ''Limit'' \<and> \<not> nullish (js_get p ''price''));
          stopped = (\<not> nullish (js_get p ''stopLoss''));
          taking = (\<not> nullish (js_get p ''takeProfit''));
          printed = [js_get p ''quantity''] @ (if priced then [js_get p ''price''] else [])
            @ (if stopped then [js_get p ''stopLoss''] else [])
            @ (if taking then [js_get p ''takeProfit''] else []);
          payload =
            [(''category'', default_to (JStr ''linear'') (js_get p ''category'')),
             (''symbol'', js_get p ''symbol''),
             (''side'', js_get p ''side''),
             (''orderType'', js_get p ''orderType''),
             (''qty'', JStr (to_string rt (js_get p ''quantity''))),
             (''timeInForce'',
                if js_get p ''orderType'' = JStr ''Market'' then JStr ''IOC'' else JStr ''PostOnly'')];
          payload = (if priced
                     then obj_set payload ''price'' (JStr (to_string rt (js_get p ''price'')))
                     else payload);
          payload = (if stopped
                     then obj_set payload ''stopLoss'' (JStr (to_string rt (js_get p ''stopLoss'')))
                     else payload);
          payload = (if taking
                     then obj_set payload ''takeProfit'' (JStr (to_string rt (js_get p ''takeProfit'')))
                     else payload)
      in if list_all printable printed then Inr payload else Inl not_printable)"

text \<open>
  \<open>getServerTimestamp\<close> (lines 15-22). \<open>get\<close> is \<open>axios.get\<close>: the message of the error it
  rejects with, or the \<open>data\<close> of the response.
\<close>

definition getServerTimestamp :: "runtime \<Rightarrow> (string \<Rightarrow> string + jsval) \<Rightarrow> jsval \<Rightarrow> exn + string" where
  "getServerTimestamp rt get testnet =
     (case get ((if truthy (default_to (JBool False) testnet) then TESTNET_URL else MAINNET_URL_v5)
                  @ ''/v5/market/time'') of
        Inl m \<Rightarrow> Inl (Error m)
      | Inr data \<Rightarrow>
          if nullish data then Inl (cannot_read data ''retCode'')
          else if js_get data ''retCode'' \<noteq> JNum 0 then
            (if printable (js_get data ''retMsg'')
             then Inl (Error (''Failed to fetch server time: '' @ to_string rt (js_get data ''retMsg'')))
             else Inl not_printable)
          else if printable (js_get data ''time'') then Inr (to_string rt (js_get data ''time''))
          else Inl not_printable)"

text \<open>\<open>signPost\<close> (lines 28-31): the HMAC of \<open>timestamp + apiKey + recvWindow + body\<close>.\<close>

definition signPost :: "runtime \<Rightarrow> jsval \<Rightarrow> jsval \<Rightarrow> jsval \<Rightarrow> string \<Rightarrow> string \<Rightarrow> exn + string" where
  "signPost rt apiSecret apiKey recvWindow timestamp body =
     (if printable apiKey \<and> printable recvWindow then
        hmac_sha256_hex rt apiSecret
          (timestamp @ to_string rt apiKey @ to_string rt recvWindow @ body)
      else Inl not_printable)"

text \<open>
  A request for an order: \<open>axios.post(url, bodyStr, {headers})\<close>. The body is the payload whose
  JSON text is sent.
\<close>

record order_request =
  request_url :: string
  request_body :: jsval
  request_headers :: "(string \<times> jsval) list"

text \<open>What \<open>executeBybitOrder\<close> does with the reply's \<open>data\<close> (lines 91-103).\<close>

definition order_reply_v5 :: "runtime \<Rightarrow> jsval \<Rightarrow> jsval \<Rightarrow> exn + jsval" where
  "order_reply_v5 rt p data =
     (if nullish data then Inl (cannot_read data ''retCode'')
      else if js_get data ''retCode'' \<noteq> JNum 0 then
        (if printable (js_get data ''retCode'') \<and> printable (js_get data ''retMsg'')
         then Inl (Error (''Bybit API error '' @ to_string rt (js_get data ''retCode'') @ '': ''
                 @ to_string rt (js_get data ''retMsg'')))
         else Inl not_printable)
      else
        (let result = js_get data ''result'' in
         if nullish result then Inl (cannot_read result ''orderId'')
         else Inr (JObj
           [(''orderId'', js_get result ''orderId''),
            (''symbol'', js_get p ''symbol''),
            (''side'', js_get p ''side''),
            (''orderType'', js_get p ''orderType''),
            (''qty'', js_get p ''quantity''),
            (''price'', js_or (js_get p ''price'') JNull),
            (''status'', js_get result ''orderStatus'')])))"

text \<open>
  \<open>executeBybitOrder\<close> of \<open>bybit.mjs\<close> (lines 46-104): the payload, the server's time, the
  signature, the request. The result comes with the order requests sent: none when an
  earlier step throws, one otherwise. Nothing is caught.
\<close>

definition executeBybitOrder_v5 ::
  "runtime \<Rightarrow> (string \<Rightarrow> string + jsval) \<Rightarrow> (order_request \<Rightarrow> string + jsval) \<Rightarrow> jsval
     \<Rightarrow> (exn + jsval) \<times> order_request list" where
  "executeBybitOrder_v5 rt get post p =
     (let testnet = default_to (JBool False) (js_get p ''testnet'');
          recvWindow = default_to (JStr DEFAULT_RECV_WINDOW) (js_get p ''recvWindow'')
      in case executeBybitOrder_v5_payload rt p of
           Inl x \<Rightarrow> (Inl x, [])
         | Inr payload \<Rightarrow>
             (case getServerTimestamp rt get testnet of
                Inl x \<Rightarrow> (Inl x, [])
              | Inr timestamp \<Rightarrow>
                  (case signPost rt (js_get p ''apiSecret'') (js_get p ''apiKey'') recvWindow
                          timestamp (json_stringify rt (JObj payload)) of
                     Inl x \<Rightarrow> (Inl x, [])
                   | Inr signature \<Rightarrow>
                       (let rq = \<lparr>request_url =
                                    (if truthy testnet then TESTNET_URL else MAINNET_URL_v5)
                                      @ ''/v5/order/create'',
                                  request_body = JObj payload,
                                  request_headers =
                                    [(''Content-Type'', JStr ''application/json''),
                                     (''X-BAPI-API-KEY'', js_get p ''apiKey''),
                                     (''X-BAPI-TIMESTAMP'', JStr timestamp),
                                     (''X-BAPI-RECV-WINDOW'', recvWindow),
                                     (''X-BAPI-SIGN'', JStr signature)]\<rparr>
                        in (case post rq of
                              Inl m \<Rightarrow> Inl (Error m)
                            | Inr data \<Rightarrow> order_reply_v5 rt p data,
                            [rq])))))"

section \<open>The store and the environment of one invocation\<close>

text \<open>
  The tables the handler reads and writes, each a list of rows (objects), and the requests
  sent to the exchange so far. Timestamps (\<open>expires_at\<close>, \<open>created_at\<close>, \<open>last_trade_at\<close>) are
  numbers of milliseconds since the epoch.
\<close>

record world =
  webhooks :: "jsval list"
  bots :: "jsval list"
  api_keys :: "jsval list"
  trades :: "jsval list"
  posts :: "http_post list"

text \<open>
  What one invocation finds around it: the two environment variables, the clock (one
  reading for the whole invocation), the exchange, and whether each of the four requests to
  the store fails on the store's side (the client then returns \<open>error\<close> and no data; it does
  not throw).
\<close>

record env =
  SUPABASE_URL :: "string option"
  SUPABASE_SERVICE_KEY :: "string option"
  now :: nat
  exchange :: "http_post \<Rightarrow> string + jsval"
  webhooks_select_fails :: bool
  api_keys_select_fails :: bool
  trades_insert_fails :: bool
  bots_update_fails :: bool

text \<open>The filters \<open>.eq(column, v)\<close> and \<open>.gt(column, t)\<close>, and \<open>.single()\<close>: exactly one row.\<close>

definition eq_filter :: "string \<Rightarrow> jsval \<Rightarrow> jsval \<Rightarrow> bool" where
  "eq_filter column v row = (\<not> nullish v \<and> js_get row column = v)"

definition gt_filter :: "string \<Rightarrow> nat \<Rightarrow> jsval \<Rightarrow> bool" where
  "gt_filter column t row = (case js_get row column of JNum x \<Rightarrow> of_nat t < x | _ \<Rightarrow> False)"

definition single :: "jsval list \<Rightarrow> jsval option" where
  "single rows = (case rows of [r] \<Rightarrow> Some r | _ \<Rightarrow> None)"

text \<open>\<open>select('*, bots(*)')\<close>: the row with the bot it references under \<open>bots\<close>, \<open>null\<close> if none.\<close>

definition with_bots :: "world \<Rightarrow> jsval \<Rightarrow> jsval" where
  "with_bots w row =
     (case row of
        JObj kvs \<Rightarrow>
          JObj (obj_set kvs ''bots''
            (case find (eq_filter ''id'' (js_get row ''bot_id'')) (bots w) of
               None \<Rightarrow> JNull
             | Some b \<Rightarrow> b))
      | _ \<Rightarrow> row)"

text \<open>The lookup of processAlert.js, lines 65-70; \<open>None\<close> is \<open>webhookError || !webhook\<close>.\<close>

definition select_webhook :: "env \<Rightarrow> world \<Rightarrow> jsval \<Rightarrow> jsval option" where
  "select_webhook e w webhookToken =
     (if webhooks_select_fails e then None
      else map_option (with_bots w)
        (single (filter (\<lambda>r. eq_filter ''webhook_token'' webhookToken r
                              \<and> gt_filter ''expires_at'' (now e) r) (webhooks w))))"

text \<open>The lookup of lines 96-101; \<open>None\<close> is \<open>apiKeyError || !apiKey\<close>.\<close>

definition select_api_key :: "env \<Rightarrow> world \<Rightarrow> jsval \<Rightarrow> jsval option" where
  "select_api_key e w user_id =
     (if api_keys_select_fails e then None
      else single (filter (\<lambda>r. eq_filter ''user_id'' user_id r
                                \<and> eq_filter ''exchange'' (JStr ''bybit'') r) (api_keys w)))"

text \<open>The insert of lines 161-174: a failed insert leaves the table as it was.\<close>

definition insert_trade :: "env \<Rightarrow> jsval \<Rightarrow> world \<Rightarrow> world" where
  "insert_trade e row w = (if trades_insert_fails e then w else w\<lparr>trades := trades w @ [row]\<rparr>)"

definition trade_row :: "nat \<Rightarrow> jsval \<Rightarrow> jsval \<Rightarrow> jsval" where
  "trade_row t webhook orderResult =
     JObj
       [(''user_id'', js_get webhook ''user_id''),
        (''bot_id'', js_get webhook ''bot_id''),
        (''symbol'', js_get orderResult ''symbol''),
        (''side'', js_get orderResult ''side''),
        (''order_type'', js_get orderResult ''orderType''),
        (''quantity'', js_get orderResult ''qty''),
        (''price'', js_get orderResult ''price''),
        (''order_id'', js_get orderResult ''orderId''),
        (''status'', js_get orderResult ''status''),
        (''created_at'', JNum (of_nat t))]"

text \<open>
  \<open>bot.trade_count ? bot.trade_count + 1 : 1\<close> (line 188). The column is a counter: the store
  returns a number, or \<open>null\<close> before the first trade. \<open>+\<close> adds numbers as doubles (\<open>true\<close>
  counts as 1) and appends to a string; the last case is what it gives on a printable array
  or object, which a counter column does not hold.
\<close>

definition next_trade_count :: "runtime \<Rightarrow> jsval \<Rightarrow> jsval" where
  "next_trade_count rt c =
     (if truthy c then
        (case c of
           JNum n \<Rightarrow> JNum (number_add rt n 1)
         | JBool b \<Rightarrow> JNum 2
         | _ \<Rightarrow> JStr (to_string rt c @ ''1''))
      else JNum 1)"

text \<open>\<open>.update(changes)\<close> on one row: the changes are made on a row the filter matches.\<close>

definition update_row :: "(jsval \<Rightarrow> bool) \<Rightarrow> (string \<times> jsval) list \<Rightarrow> jsval \<Rightarrow> jsval" where
  "update_row matches changes row =
     (case row of
        JObj kvs \<Rightarrow>
          if matches row then JObj (foldl (\<lambda>obj (k, v). obj_set obj k v) kvs changes) else row
      | _ \<Rightarrow> row)"

text \<open>The update of lines 184-190, on the rows whose \<open>id\<close> is the webhook's \<open>bot_id\<close>.\<close>

definition update_bot :: "runtime \<Rightarrow> env \<Rightarrow> jsval \<Rightarrow> jsval \<Rightarrow> world \<Rightarrow> world" where
  "update_bot rt e webhook bot' w =
     (if bots_update_fails e then w
      else w\<lparr>bots :=
        map (update_row (eq_filter ''id'' (js_get webhook ''bot_id''))
               [(''last_trade_at'', JNum (of_nat (now e))),
                (''trade_count'', next_trade_count rt (js_get bot' ''trade_count''))])
          (bots w)\<rparr>)"

section \<open>The alert handler (processAlert.js)\<close>

text \<open>The request: its method, its full URL, and what \<open>req.json()\<close> gives, the parsed body
  or the message of the SyntaxError it rejects with.\<close>

record request =
  http_method :: string
  url :: string
  json :: "string + jsval"

text \<open>The response: the body is the object handed to \<open>JSON.stringify\<close>, \<open>None\<close> for no body.\<close>

record response =
  status :: nat
  headers :: "(string \<times> string) list"
  body :: "jsval option"

definition corsHeaders :: "(string \<times> string) list" where
  "corsHeaders =
     [(''Access-Control-Allow-Origin'', ''*''),
      (''Access-Control-Allow-Methods'', ''POST, OPTIONS''),
      (''Access-Control-Allow-Headers'', ''Content-Type, Authorization'')]"

definition json_response :: "nat \<Rightarrow> jsval \<Rightarrow> response" where
  "json_response code obj =
     \<lparr>status = code, headers = corsHeaders @ [(''Content-Type'', ''application/json'')],
      body = Some obj\<rparr>"

text \<open>\<open>s.split(c)\<close> for a one-character separator, and \<open>.pop()\<close> of the resulting array.\<close>

fun split :: "char \<Rightarrow> string \<Rightarrow> string list" where
  "split c [] = [[]]"
| "split c (x # xs) =
     (if x = c then [] # split c xs
      else (case split c xs of s # ss \<Rightarrow> (x # s) # ss | [] \<Rightarrow> [[x]]))"

definition pop :: "string list \<Rightarrow> jsval" where
  "pop xs = (if xs = [] then JUndefined else JStr (last xs))"

text \<open>Line 60: \<open>req.url.split('/').pop()\<close>.\<close>

definition webhookToken :: "request \<Rightarrow> jsval" where
  "webhookToken req = pop (split CHR ''/'' (url req))"

text \<open>The simulated order of lines 142-150.\<close>

definition simulated_order :: "nat \<Rightarrow> jsval \<Rightarrow> jsval" where
  "simulated_order t p =
     JObj
       [(''orderId'', JStr (''test-'' @ digits t)),
        (''symbol'', js_get p ''symbol''),
        (''side'', js_get p ''side''),
        (''orderType'', js_get p ''orderType''),
        (''qty'', js_get p ''quantity''),
        (''price'', js_or (js_get p ''price'') (JNum 0)),
        (''status'', JStr ''TEST_ORDER'')]"

text \<open>
  Lines 136-155: the simulated order in test mode, the exchange client otherwise. The
  requests sent are appended to \<open>posts\<close>.
\<close>

definition place_order :: "runtime \<Rightarrow> env \<Rightarrow> jsval \<Rightarrow> jsval \<Rightarrow> world \<Rightarrow> (exn + jsval) \<times> world" where
  "place_order rt e bot' p w =
     (if truthy (js_get bot' ''test_mode'') then (Inr (simulated_order (now e) p), w)
      else (case executeBybitOrder rt (now e) (exchange e) p of
              (r, sent) \<Rightarrow> (r, w\<lparr>posts := posts w @ sent\<rparr>)))"

text \<open>Lines 159-210: the trade is logged, the bot updated, and the caller answered.\<close>

definition record_and_respond ::
  "runtime \<Rightarrow> env \<Rightarrow> jsval \<Rightarrow> jsval \<Rightarrow> jsval \<Rightarrow> world \<Rightarrow> response \<times> world" where
  "record_and_respond rt e webhook bot' orderResult w =
     (json_response 200 (JObj
        [(''success'', JBool True),
         (''orderId'', js_get orderResult ''orderId''),
         (''status'', js_get orderResult ''status''),
         (''testMode'', js_get bot' ''test_mode'')]),
      update_bot rt e webhook bot' (insert_trade e (trade_row (now e) webhook orderResult) w))"

text \<open>
  The body of \<open>try\<close> (lines 59-210): a response, or what was thrown. Line 92 reads
  \<open>bot.name\<close>, which throws when the webhook's bot is \<open>null\<close>.
\<close>

definition try_block :: "runtime \<Rightarrow> env \<Rightarrow> world \<Rightarrow> request \<Rightarrow> (exn + response) \<times> world" where
  "try_block rt e w req =
     (case select_webhook e w (webhookToken req) of
        None \<Rightarrow> (Inr (json_response 404 (JObj [(''error'', JStr ''Invalid or expired webhook'')])), w)
      | Some webhook \<Rightarrow>
          (case json req of
             Inl m \<Rightarrow> (Inl (SyntaxError m), w)
           | Inr alertData \<Rightarrow>
               (let bot' = js_get webhook ''bots'' in
                if nullish bot' then (Inl (cannot_read bot' ''name''), w)
                else
                  (case select_api_key e w (js_get webhook ''user_id'') of
                     None \<Rightarrow>
                       (Inr (json_response 400 (JObj [(''error'', JStr ''API credentials not found'')])), w)
                   | Some apiKey \<Rightarrow>
                       (case orderParams alertData bot' apiKey of
                          Inl x \<Rightarrow> (Inl x, w)
                        | Inr p \<Rightarrow>
                            (case place_order rt e bot' p w of
                               (Inl x, w') \<Rightarrow> (Inl x, w')
                             | (Inr orderResult, w') \<Rightarrow>
                                 (case record_and_respond rt e webhook bot' orderResult w' of
                                    (r, w'') \<Rightarrow> (Inr r, w''))))))))"

text \<open>A variable of the environment that is unset or empty is falsy (line 43).\<close>

definition unset :: "string option \<Rightarrow> bool" where
  "unset v = (v = None \<or> v = Some [])"

text \<open>The handler: the response, and the store and the exchange after it.\<close>

definition processAlert :: "runtime \<Rightarrow> env \<Rightarrow> world \<Rightarrow> request \<Rightarrow> response \<times> world" where
  "processAlert rt e w req =
     (if http_method req = ''OPTIONS'' then (\<lparr>status = 204, headers = corsHeaders, body = None\<rparr>, w)
      else if http_method req \<noteq> ''POST'' then
        (json_response 405 (JObj [(''error'', JStr ''Method not allowed'')]), w)
      else if unset (SUPABASE_URL e) \<or> unset (SUPABASE_SERVICE_KEY e) then
        (json_response 500 (JObj [(''error'', JStr ''Server configuration error'')]), w)
      else
        (case try_block rt e w req of
           (Inr r, w') \<Rightarrow> (r, w')
         | (Inl x, w') \<Rightarrow> (json_response 500 (JObj [(''error'', JStr (message x))]), w')))"

section \<open>Example data\<close>

text \<open>
  A stand-in platform for the examples: the digest is the key followed by the message (a
  key that is not a string is refused); a number prints as its integer part, which is how
  the engine prints a natural number below \<open>10^21\<close>; the sum is the exact one, as it is for
  the engine on small integers; and the JSON text of an object is stood in for by the list
  of its keys.
\<close>

definition demo_runtime :: runtime where
  "demo_runtime =
     \<lparr>hmac_sha256_hex =
        (\<lambda>k m. case k of JStr s \<Rightarrow> Inr (s @ '':'' @ m) | _ \<Rightarrow> Inl (TypeError ''invalid key'')),
      number_to_string = (\<lambda>n. digits (nat \<lfloor>n\<rfloor>)),
      number_add = (\<lambda>a b. a + b),
      json_stringify = (\<lambda>v. case v of JObj kvs \<Rightarrow> ''{'' @ join '','' (keys kvs) @ ''}'' | _ \<Rightarrow> ''null'')\<rparr>"

text \<open>
  One user with one bot (in test mode or live), one credential row flagged as a test key,
  a webhook valid for ten more minutes and one that expired a day ago.
\<close>

definition demo_world :: "bool \<Rightarrow> world" where
  "demo_world test =
     \<lparr>webhooks =
        [JObj [(''webhook_token'', JStr ''V1StGXR8_Z5jdHi6B-myTV1StGXR8_Z5''),
               (''user_id'', JStr ''u1''), (''bot_id'', JStr ''b1''),
               (''expires_at'', JNum 1700000600000)],
         JObj [(''webhook_token'', JStr ''abc123''),
               (''user_id'', JStr ''u1''), (''bot_id'', JStr ''b1''),
               (''expires_at'', JNum 1699913600000)]],
      bots =
        [JObj [(''id'', JStr ''b1''), (''name'', JStr ''bot''), (''symbol'', JStr ''BTCUSDT''),
               (''default_side'', JStr ''Buy''), (''default_order_type'', JStr ''Market''),
               (''default_quantity'', JStr ''0.001''), (''test_mode'', JBool test),
               (''trade_count'', JNum 4)]],
      api_keys =
        [JObj [(''user_id'', JStr ''u1''), (''exchange'', JStr ''bybit''),
               (''api_key'', JStr ''K''), (''api_secret'', JStr ''S''),
               (''test_mode'', JBool True)]],
      trades = [],
      posts = []\<rparr>"

text \<open>An invocation at 1700000000000 ms whose exchange rejects every order.\<close>

definition demo_env :: env where
  "demo_env =
     \<lparr>SUPABASE_URL = Some ''https://db.example'',
      SUPABASE_SERVICE_KEY = Some ''service-key'',
      now = 1700000000000,
      exchange = (\<lambda>rq. Inr (JObj [(''ret_code'', JNum 10001), (''ret_msg'', JStr ''params error'')])),
      webhooks_select_fails = False,
      api_keys_select_fails = False,
      trades_insert_fails = False,
      bots_update_fails = False\<rparr>"

definition demo_request :: "string \<Rightarrow> request" where
  "demo_request u = \<lparr>http_method = ''POST'', url = u, json = Inr (JObj [(''side'', JStr ''Sell'')])\<rparr>"

section \<open>Objects\<close>

lemma map_of_obj_set:
  "map_of (obj_set kvs k v) k' = (if k' = k then Some v else map_of kvs k')"
  by (induction kvs) auto

lemma js_get_obj_set:
  "js_get (JObj (obj_set kvs k v)) k' = (if k' = k then v else js_get (JObj kvs) k')"
  by (simp add: map_of_obj_set)



section \<open>Venue selection\<close>



text \<open>
  The earlier revision of the handler did let the credential's flag decide: the same live
  bot with the same flagged credential was sent to the testnet.
\<close>

lemma orderParams_earlier_credential_flag:
  "map_sum id baseUrl (orderParams_earlier (JObj [(''side'', JStr ''Buy'')])
      (JObj [(''symbol'', JStr ''BTCUSDT''), (''default_order_type'', JStr ''Market''),
             (''default_quantity'', JNum 1), (''test_mode'', JBool False)])
      (JObj [(''api_key'', JStr ''K''), (''api_secret'', JStr ''S''), (''test_mode'', JBool True)]))
   = Inr TESTNET_URL"
  by (simp add: orderParams_earlier_def js_or_def baseUrl_def default_to_def)

section \<open>Order assembly\<close>

text \<open>
  C7, as the code has it. Each of symbol, side, orderType, quantity, stopLoss and
  takeProfit is the payload's value when that value is truthy, and the bot's default
  otherwise: a payload value that is present but falsy (\<open>0\<close>, the empty string, \<open>false\<close>) gives
  way to the default just as \<open>null\<close> and an absent field do. The price is the payload's,
  whatever it is, and \<open>undefined\<close> when the payload has none. Assembly succeeds on every
  payload but \<open>null\<close>.
\<close>

theorem orderParams_fields:
  assumes "\<not> nullish alertData"
  shows "\<exists>p. orderParams alertData bot' apiKey = Inr p
     \<and> js_get p ''symbol'' = (if truthy (js_get alertData ''symbol'')
          then js_get alertData ''symbol'' else js_get bot' ''symbol'')
     \<and> js_get p ''side'' = (if truthy (js_get alertData ''side'')
          then js_get alertData ''side'' else js_get bot' ''default_side'')
     \<and> js_get p ''orderType'' = (if truthy (js_get alertData ''orderType'')
          then js_get alertData ''orderType'' else js_get bot' ''default_order_type'')
     \<and> js_get p ''quantity'' = (if truthy (js_get alertData ''quantity'')
          then js_get alertData ''quantity'' else js_get bot' ''default_quantity'')
     \<and> js_get p ''stopLoss'' = (if truthy (js_get alertData ''stopLoss'')
          then js_get alertData ''stopLoss'' else js_get bot' ''default_stop_loss'')
     \<and> js_get p ''takeProfit'' = (if truthy (js_get alertData ''takeProfit'')
          then js_get alertData ''takeProfit'' else js_get bot' ''default_take_profit'')
     \<and> js_get p ''price'' = js_get alertData ''price''"
  using assms by (simp add: orderParams_def js_or_def)

text \<open>A payload with a quantity and no price, on a bot with a default side.\<close>

theorem orderParams_fields_witness:
  "\<exists>p. orderParams (JObj [(''quantity'', JNum 2)])
          (JObj [(''symbol'', JStr ''BTCUSDT''), (''default_side'', JStr ''Sell''),
                 (''default_quantity'', JNum 1)]) (JObj []) = Inr p
     \<and> js_get p ''symbol'' = JStr ''BTCUSDT''
     \<and> js_get p ''side'' = JStr ''Sell''
     \<and> js_get p ''quantity'' = JNum 2
     \<and> js_get p ''price'' = JUndefined"
  using orderParams_fields [of "JObj [(''quantity'', JNum 2)]"
      "JObj [(''symbol'', JStr ''BTCUSDT''), (''default_side'', JStr ''Sell''),
             (''default_quantity'', JNum 1)]" "JObj []"]
  by simp blast

text \<open>
  The claim as the spec words it fails on a payload that sets \<open>stopLoss\<close> to \<open>0\<close>: the field
  is present and not null, and the order carries the bot's default stop all the same.
\<close>

theorem orderParams_present_falsy_counterexample:
  "orderParams (JObj [(''symbol'', JStr ''BTCUSDT''), (''stopLoss'', JNum 0)])
     (JObj [(''symbol'', JStr ''ETHUSDT''), (''default_stop_loss'', JNum 25000)])
     (JObj [(''api_key'', JStr ''K''), (''api_secret'', JStr ''S'')])
   = Inr (JObj [(''apiKey'', JStr ''K''), (''apiSecret'', JStr ''S''),
       (''symbol'', JStr ''BTCUSDT''), (''side'', JUndefined), (''orderType'', JUndefined),
       (''quantity'', JUndefined), (''price'', JUndefined), (''stopLoss'', JNum 25000),
       (''takeProfit'', JUndefined), (''testnet'', JUndefined)])"
  by (simp add: orderParams_def js_or_def)

section \<open>The handler, step by step\<close>

lemma processAlert_running:
  assumes "http_method req = ''POST''"
      and "\<not> unset (SUPABASE_URL e)" and "\<not> unset (SUPABASE_SERVICE_KEY e)"
  shows "processAlert rt e w req =
     (case try_block rt e w req of
        (Inr r, w') \<Rightarrow> (r, w')
      | (Inl x, w') \<Rightarrow> (json_response 500 (JObj [(''error'', JStr (message x))]), w'))"
  using assms by (simp add: processAlert_def)

lemma single_Nil: "single [] = None"
  by (simp add: single_def)

lemma select_webhook_miss:
  assumes "\<forall>r\<in>set (webhooks w).
      \<not> (eq_filter ''webhook_token'' tok r \<and> gt_filter ''expires_at'' (now e) r)"
  shows "select_webhook e w tok = None"
proof -
  from assms have "filter (\<lambda>r. eq_filter ''webhook_token'' tok r
      \<and> gt_filter ''expires_at'' (now e) r) (webhooks w) = []"
    by (simp add: filter_empty_conv)
  then show ?thesis
    by (simp add: select_webhook_def single_Nil)
qed

lemma try_block_miss:
  assumes "select_webhook e w (webhookToken req) = None"
  shows "try_block rt e w req =
     (Inr (json_response 404 (JObj [(''error'', JStr ''Invalid or expired webhook'')])), w)"
  using assms by (simp add: try_block_def)

lemma processAlert_miss:
  assumes "select_webhook e w (webhookToken req) = None"
  shows "processAlert rt e w req =
     (if http_method req = ''OPTIONS'' then (\<lparr>status = 204, headers = corsHeaders, body = None\<rparr>, w)
      else if http_method req \<noteq> ''POST'' then
        (json_response 405 (JObj [(''error'', JStr ''Method not allowed'')]), w)
      else if unset (SUPABASE_URL e) \<or> unset (SUPABASE_SERVICE_KEY e) then
        (json_response 500 (JObj [(''error'', JStr ''Server configuration error'')]), w)
      else (json_response 404 (JObj [(''error'', JStr ''Invalid or expired webhook'')]), w))"
  by (simp add: processAlert_def try_block_miss [OF assms])

section \<open>Webhook resolution\<close>

text \<open>
  C4. A token with no row in the store and a token whose every row has expired get the
  same response from the handler, whatever the request, and neither changes the store;
  for a POST on a configured deployment that response is the 404 with the one fixed
  body.
\<close>

theorem miss_indistinguishable:
  assumes absent: "\<forall>r\<in>set (webhooks w1). js_get r ''webhook_token'' \<noteq> webhookToken req"
      and expired: "\<forall>r\<in>set (webhooks w2). js_get r ''webhook_token'' = webhookToken req \<longrightarrow>
             (\<exists>x. js_get r ''expires_at'' = JNum x \<and> x \<le> of_nat (now e))"
  shows "fst (processAlert rt e w1 req) = fst (processAlert rt e w2 req)
       \<and> snd (processAlert rt e w1 req) = w1 \<and> snd (processAlert rt e w2 req) = w2
       \<and> (http_method req = ''POST'' \<and> \<not> unset (SUPABASE_URL e) \<and> \<not> unset (SUPABASE_SERVICE_KEY e)
            \<longrightarrow> fst (processAlert rt e w1 req)
                = json_response 404 (JObj [(''error'', JStr ''Invalid or expired webhook'')]))"
proof -
  from absent have m1: "select_webhook e w1 (webhookToken req) = None"
    by (intro select_webhook_miss) (simp add: eq_filter_def)
  have m2: "select_webhook e w2 (webhookToken req) = None"
  proof (rule select_webhook_miss, rule ballI)
    fix r assume "r \<in> set (webhooks w2)"
    with expired show "\<not> (eq_filter ''webhook_token'' (webhookToken req) r
        \<and> gt_filter ''expires_at'' (now e) r)"
      by (auto simp: eq_filter_def gt_filter_def)
  qed
  show ?thesis
    by (simp add: processAlert_miss [OF m1] processAlert_miss [OF m2])
qed

text \<open>The token \<open>abc123\<close>: unknown to an empty store, expired a day ago in the example's.\<close>

theorem miss_indistinguishable_witness:
  "fst (processAlert demo_runtime demo_env ((demo_world True)\<lparr>webhooks := []\<rparr>)
          (demo_request ''https://h/.netlify/functions/processAlert/abc123''))
   = fst (processAlert demo_runtime demo_env (demo_world True)
          (demo_request ''https://h/.netlify/functions/processAlert/abc123''))
   \<and> fst (processAlert demo_runtime demo_env ((demo_world True)\<lparr>webhooks := []\<rparr>)
          (demo_request ''https://h/.netlify/functions/processAlert/abc123''))
     = json_response 404 (JObj [(''error'', JStr ''Invalid or expired webhook'')])"
proof -
  let ?req = "demo_request ''https://h/.netlify/functions/processAlert/abc123''"
  have token: "webhookToken ?req = JStr ''abc123''"
    by (simp add: demo_request_def webhookToken_def pop_def)
  have absent: "\<forall>r\<in>set (webhooks ((demo_world True)\<lparr>webhooks := []\<rparr>)).
      js_get r ''webhook_token'' \<noteq> webhookToken ?req"
    by simp
  have expired: "\<forall>r\<in>set (webhooks (demo_world True)).
      js_get r ''webhook_token'' = webhookToken ?req \<longrightarrow>
      (\<exists>x. js_get r ''expires_at'' = JNum x \<and> x \<le> of_nat (now demo_env))"
    by (simp add: token demo_world_def demo_env_def)
  have running: "http_method ?req = ''POST'' \<and> \<not> unset (SUPABASE_URL demo_env)
      \<and> \<not> unset (SUPABASE_SERVICE_KEY demo_env)"
    by (simp add: demo_request_def demo_env_def unset_def)
  from miss_indistinguishable [OF absent expired, of demo_runtime] running
  show ?thesis by blast
qed

section \<open>The token in the URL\<close>

lemma split_not_Nil: "split c s \<noteq> []"
  by (induction s) (auto split: list.splits)

lemma split_without_separator: "c \<notin> set s \<Longrightarrow> split c s = [s]"
  by (induction s) auto

lemma length_split: "length (split c s) = Suc (count_list s c)"
  by (induction s) (auto simp: split_not_Nil split: list.splits)

lemma last_split_Cons:
  "last (split c (x # xs)) =
     (if x \<noteq> c \<and> c \<notin> set xs then x # xs else last (split c xs))"
proof (cases "c \<in> set xs")
  case False
  then show ?thesis
    by (simp add: split_without_separator split_not_Nil)
next
  case True
  then have "count_list xs c \<noteq> 0"
    by (simp add: count_list_0_iff)
  then have "1 < length (split c xs)"
    by (simp add: length_split)
  then obtain s t ss where "split c xs = s # t # ss"
    by (cases "split c xs" rule: list.exhaust; cases "tl (split c xs)") auto
  with True show ?thesis
    by simp
qed

lemma last_split_append:
  "c \<notin> set seg \<Longrightarrow> last (split c (base @ c # seg)) = seg"
  by (induction base) (simp_all add: last_split_Cons split_without_separator del: split.simps)

lemma webhookToken_segment:
  assumes "url req = base @ ''/'' @ seg" and "CHR ''/'' \<notin> set seg"
  shows "webhookToken req = JStr seg"
  using assms by (simp add: webhookToken_def pop_def split_not_Nil last_split_append)

text \<open>
  C10, as the code has it. The token looked up is the text after the last \<open>/\<close> of the full
  URL. When that text is empty (a trailing slash) or holds a \<open>?\<close> (a query string with no
  \<open>/\<close> in it, appended to the token), and every stored token is a non-empty string without
  \<open>?\<close>, as the generator's are, a POST on a configured deployment gets the 404 and the store is
  left as it was.
\<close>

theorem webhookToken_last_segment:
  assumes "url req = base @ ''/'' @ seg" and "CHR ''/'' \<notin> set seg"
  shows "webhookToken req = JStr seg
    \<and> ((seg = [] \<or> CHR ''?'' \<in> set seg)
        \<and> (\<forall>r\<in>set (webhooks w). \<forall>t. js_get r ''webhook_token'' = JStr t \<longrightarrow>
               t \<noteq> [] \<and> CHR ''?'' \<notin> set t)
        \<and> http_method req = ''POST''
        \<and> \<not> unset (SUPABASE_URL e) \<and> \<not> unset (SUPABASE_SERVICE_KEY e)
        \<longrightarrow> processAlert rt e w req
              = (json_response 404 (JObj [(''error'', JStr ''Invalid or expired webhook'')]), w))"
proof -
  note token = webhookToken_segment [OF assms]
  have "select_webhook e w (JStr seg) = None"
    if "seg = [] \<or> CHR ''?'' \<in> set seg"
      and "\<forall>r\<in>set (webhooks w). \<forall>t. js_get r ''webhook_token'' = JStr t \<longrightarrow>
             t \<noteq> [] \<and> CHR ''?'' \<notin> set t"
    using that by (intro select_webhook_miss) (auto simp: eq_filter_def)
  then show ?thesis
    by (auto simp: token processAlert_miss)
qed

text \<open>The valid token of the example with \<open>?source=tv\<close> appended.\<close>

theorem webhookToken_last_segment_witness:
  "webhookToken (demo_request
      ''https://h/.netlify/functions/processAlert/V1StGXR8_Z5jdHi6B-myTV1StGXR8_Z5?source=tv'')
     = JStr ''V1StGXR8_Z5jdHi6B-myTV1StGXR8_Z5?source=tv''
   \<and> processAlert demo_runtime demo_env (demo_world True) (demo_request
      ''https://h/.netlify/functions/processAlert/V1StGXR8_Z5jdHi6B-myTV1StGXR8_Z5?source=tv'')
     = (json_response 404 (JObj [(''error'', JStr ''Invalid or expired webhook'')]), demo_world True)"
proof -
  let ?req = "demo_request
      ''https://h/.netlify/functions/processAlert/V1StGXR8_Z5jdHi6B-myTV1StGXR8_Z5?source=tv''"
  have shape: "url ?req = ''https://h/.netlify/functions/processAlert'' @ ''/''
      @ ''V1StGXR8_Z5jdHi6B-myTV1StGXR8_Z5?source=tv''"
    by (simp add: demo_request_def)
  have segment: "CHR ''/'' \<notin> set ''V1StGXR8_Z5jdHi6B-myTV1StGXR8_Z5?source=tv''"
    by simp
  have rest: "(''V1StGXR8_Z5jdHi6B-myTV1StGXR8_Z5?source=tv'' = []
        \<or> CHR ''?'' \<in> set ''V1StGXR8_Z5jdHi6B-myTV1StGXR8_Z5?source=tv'')
      \<and> (\<forall>r\<in>set (webhooks (demo_world True)). \<forall>t. js_get r ''webhook_token'' = JStr t \<longrightarrow>
             t \<noteq> [] \<and> CHR ''?'' \<notin> set t)
      \<and> http_method ?req = ''POST''
      \<and> \<not> unset (SUPABASE_URL demo_env) \<and> \<not> unset (SUPABASE_SERVICE_KEY demo_env)"
    by (auto simp: demo_world_def demo_request_def demo_env_def unset_def)
  from webhookToken_last_segment [OF shape segment, of "demo_world True" demo_env demo_runtime] rest
  show ?thesis by blast
qed

text \<open>The definitions a concrete run of the handler unfolds.\<close>

lemmas handler_defs = processAlert_def try_block_def select_webhook_def select_api_key_def
  webhookToken_def pop_def single_def eq_filter_def gt_filter_def with_bots_def unset_def
  orderParams_def js_or_def place_order_def record_and_respond_def insert_trade_def update_bot_def
  trade_row_def simulated_order_def next_trade_count_def json_response_def update_row_def

lemmas demo_defs = demo_world_def demo_env_def demo_request_def demo_runtime_def

text \<open>
  The claim as worded fails on a query string that holds a \<open>/\<close>: the text after the last
  \<open>/\<close> is then the tail of the query, and when that tail is a stored, unexpired token the
  request is processed for it (here: a simulated order, answered 200, one trade logged).
\<close>

theorem webhookToken_query_with_slash_counterexample:
  "webhookToken (demo_request
      ''https://h/.netlify/functions/processAlert/abc123?next=/V1StGXR8_Z5jdHi6B-myTV1StGXR8_Z5'')
     = JStr ''V1StGXR8_Z5jdHi6B-myTV1StGXR8_Z5''
   \<and> status (fst (processAlert demo_runtime demo_env (demo_world True) (demo_request
      ''https://h/.netlify/functions/processAlert/abc123?next=/V1StGXR8_Z5jdHi6B-myTV1StGXR8_Z5'')))
     = 200
   \<and> length (trades (snd (processAlert demo_runtime demo_env (demo_world True) (demo_request
      ''https://h/.netlify/functions/processAlert/abc123?next=/V1StGXR8_Z5jdHi6B-myTV1StGXR8_Z5''))))
     = 1"
  by (simp add: handler_defs demo_defs)

section \<open>What the steps of the handler read and write\<close>

lemma insert_trade_frame:
  "posts (insert_trade e row w) = posts w"
  "bots (insert_trade e row w) = bots w"
  "webhooks (insert_trade e row w) = webhooks w"
  "api_keys (insert_trade e row w) = api_keys w"
  "trades (insert_trade e row w) = (if trades_insert_fails e then trades w else trades w @ [row])"
  by (simp_all add: insert_trade_def)

lemma update_bot_frame:
  "posts (update_bot rt e webhook b w) = posts w"
  "trades (update_bot rt e webhook b w) = trades w"
  "webhooks (update_bot rt e webhook b w) = webhooks w"
  "api_keys (update_bot rt e webhook b w) = api_keys w"
  by (simp_all add: update_bot_def)

lemma record_and_respond_frame:
  "posts (snd (record_and_respond rt e webhook b r w)) = posts w"
  "trades (snd (record_and_respond rt e webhook b r w))
     = (if trades_insert_fails e then trades w else trades w @ [trade_row (now e) webhook r])"
  by (simp_all add: record_and_respond_def insert_trade_frame update_bot_frame)







section \<open>Test mode\<close>



text \<open>The definitions a concrete call of the legacy exchange client unfolds.\<close>

lemmas exchange_defs = executeBybitOrder_def generateSignature_def queryString_def
  executeBybitOrder_params_def order_reply_def to_string_def baseUrl_def default_to_def keys_def
  MAINNET_URL_def TESTNET_URL_def all_printable_def not_printable_def



section \<open>Persistence is best effort\<close>



section \<open>The signed string\<close>

lemma join_Cons: "join sep (x # xs) = x @ concat (map ((@) sep) xs)"
  by (induction xs arbitrary: x) simp_all


lemma foldl_append_each:
  "foldl (\<lambda>a b. a @ g b) init ks = init @ concat (map g ks)"
  by (induction ks arbitrary: init) simp_all

lemma butlast_separated:
  "butlast (x @ [c] @ concat (map (\<lambda>b. f b @ [c]) ks)) = x @ concat (map (\<lambda>b. [c] @ f b) ks)"
proof (induction ks arbitrary: x)
  case Nil
  show ?case by simp
next
  case (Cons k ks)
  from Cons [of "x @ [c] @ f k"] show ?case by simp
qed

text \<open>What \<open>bybit.js\<close> signs: the timestamp first, then the parameters by sorted key.\<close>

lemma queryString_form:
  "butlast (queryString rt t params) =
     join ''&'' ((''timestamp='' @ digits t)
       # map (\<lambda>key. key @ ''='' @ to_string rt (js_get (JObj params) key)) (sort (keys params)))"
proof -
  have "queryString rt t params = (''timestamp='' @ digits t) @ ''&''
      @ concat (map (\<lambda>b. (b @ ''='' @ to_string rt (js_get (JObj params) b)) @ ''&'')
          (sort (keys params)))"
    by (simp add: queryString_def foldl_append_each)
  then show ?thesis
    using butlast_separated [of "''timestamp='' @ digits t" "CHR ''&''"
        "\<lambda>b. b @ ''='' @ to_string rt (js_get (JObj params) b)" "sort (keys params)"]
    by (simp add: join_Cons comp_def)
qed

text \<open>What \<open>part_000\<close> and \<open>part_001\<close> sign: every parameter, by sorted key.\<close>

lemma queryString_sorted_order:
  "queryString_sorted rt params =
     join ''&'' (map (\<lambda>key. key @ ''='' @ to_string rt (js_get (JObj params) key)) (sort (keys params)))
   \<and> sorted (sort (keys params)) \<and> set (sort (keys params)) = set (keys params)
   \<and> length (sort (keys params)) = length (keys params)"
  by (simp add: queryString_sorted_def)


lemma pair_eq_iff: "k @ ''='' @ a = k @ ''='' @ b \<longleftrightarrow> a = b"
  by simp




section \<open>The legacy signature\<close>

text \<open>
  C6. For a Market order placed through \<open>bybit.js\<close> at 1700000000000 ms the signed string
  has the timestamp in front of \<open>api_key\<close>, out of its sorted place, which is the last one;
  the second string is the one sorted by key, which \<open>part_000\<close> and \<open>part_001\<close> sign for
  the same parameters.
\<close>

theorem queryString_timestamp_first:
  "butlast (queryString rt 1700000000000 (executeBybitOrder_params
      (JObj [(''apiKey'', JStr ''K''), (''apiSecret'', JStr ''S''), (''symbol'', JStr ''BTCUSDT''),
             (''side'', JStr ''Buy''), (''orderType'', JStr ''Market''),
             (''quantity'', JStr ''0.001'')])))
     = ''timestamp=1700000000000&api_key=K&order_type=Market&qty=0.001&side=Buy&symbol=BTCUSDT&time_in_force=GoodTillCancel''
   \<and> queryString_sorted rt (obj_set (executeBybitOrder_params
      (JObj [(''apiKey'', JStr ''K''), (''apiSecret'', JStr ''S''), (''symbol'', JStr ''BTCUSDT''),
             (''side'', JStr ''Buy''), (''orderType'', JStr ''Market''),
             (''quantity'', JStr ''0.001'')])) ''timestamp'' (JStr ''1700000000000''))
     = ''api_key=K&order_type=Market&qty=0.001&side=Buy&symbol=BTCUSDT&time_in_force=GoodTillCancel&timestamp=1700000000000''"
  by (simp add: queryString_form queryString_sorted_def executeBybitOrder_params_def keys_def
      to_string_def digits.simps)

section \<open>Where the handler sends orders\<close>

text \<open>
  What the exchange client sends: nothing when signing throws; otherwise one request, to the
  base URL of the \<open>testnet\<close> flag, good till cancelled, whose reply decides the outcome.
\<close>

lemma executeBybitOrder_sent:
  assumes "executeBybitOrder rt t ex p = (r, sent)"
  shows "(sent = [] \<and> (\<exists>x. r = Inl x))
       \<or> (\<exists>rq. sent = [rq]
            \<and> post_url rq = baseUrl p @ ''/v2/private/order/create''
            \<and> js_get (post_data rq) ''time_in_force'' = JStr ''GoodTillCancel''
            \<and> r = (case ex rq of
                     Inl m \<Rightarrow> Inl (Error (''Failed to execute order: '' @ m))
                   | Inr data \<Rightarrow>
                       (case order_reply rt p data of
                          Inl x \<Rightarrow> Inl (Error (''Failed to execute order: '' @ message x))
                        | Inr orderResult \<Rightarrow> Inr orderResult)))"
proof (cases "generateSignature rt t (js_get p ''apiSecret'') (executeBybitOrder_params p)")
  case (Inl x)
  with assms show ?thesis
    by (auto simp: executeBybitOrder_def)
next
  case (Inr signed)
  obtain timestamp signature where signed: "signed = (timestamp, signature)"
    by (cases signed)
  have tif: "js_get (JObj (obj_set (obj_set (executeBybitOrder_params p) ''timestamp'' (JStr timestamp))
      ''sign'' (JStr signature))) ''time_in_force'' = JStr ''GoodTillCancel''"
    by (simp add: executeBybitOrder_params_def Let_def map_of_obj_set)
  from assms Inr signed tif show ?thesis
    by (auto simp: executeBybitOrder_def Let_def simp del: js_get.simps)
qed

lemma order_reply_rejected:
  "js_get data ''ret_code'' \<noteq> JNum 0 \<Longrightarrow> \<exists>x. order_reply rt p data = Inl x"
  by (simp add: order_reply_def)

text \<open>
  What \<open>place_order\<close> sends: nothing in test mode; otherwise at most one request, to the
  mainnet, good till cancelled, and when the exchange answers that request with a return
  code other than \<open>0\<close> the order fails with the prefix of the client's \<open>catch\<close>.
\<close>

lemma place_order_sent:
  assumes "place_order rt e b p w = (r, w')"
      and "js_get p ''testnet'' = js_get b ''test_mode''"
  shows "\<exists>sent. w' = w\<lparr>posts := posts w @ sent\<rparr>
      \<and> (sent = [] \<or> (\<exists>rq. sent = [rq]
            \<and> \<not> truthy (js_get b ''test_mode'')
            \<and> post_url rq = MAINNET_URL @ ''/v2/private/order/create''
            \<and> js_get (post_data rq) ''time_in_force'' = JStr ''GoodTillCancel''
            \<and> (\<forall>data. exchange e rq = Inr data \<and> js_get data ''ret_code'' \<noteq> JNum 0 \<longrightarrow>
                  (\<exists>m. r = Inl (Error (''Failed to execute order: '' @ m))))))"
proof (cases "truthy (js_get b ''test_mode'')")
  case True
  with assms(1) have "w' = w\<lparr>posts := posts w @ []\<rparr>"
    by (simp add: place_order_def)
  then show ?thesis by blast
next
  case False
  obtain r' sent where ex: "executeBybitOrder rt (now e) (exchange e) p = (r', sent)"
    by (cases "executeBybitOrder rt (now e) (exchange e) p")
  from False assms(1) ex have w': "w' = w\<lparr>posts := posts w @ sent\<rparr>" and r: "r = r'"
    by (simp_all add: place_order_def)
  from False assms(2) have url: "baseUrl p = MAINNET_URL"
    by (cases "js_get b ''test_mode''") (auto simp: baseUrl_def default_to_def)
  from executeBybitOrder_sent [OF ex] show ?thesis
  proof (elim disjE exE conjE)
    assume "sent = []"
    with w' show ?thesis by blast
  next
    fix rq
    assume rq: "sent = [rq]" "post_url rq = baseUrl p @ ''/v2/private/order/create''"
      "js_get (post_data rq) ''time_in_force'' = JStr ''GoodTillCancel''"
      and out: "r' = (case exchange e rq of
                     Inl m \<Rightarrow> Inl (Error (''Failed to execute order: '' @ m))
                   | Inr data \<Rightarrow>
                       (case order_reply rt p data of
                          Inl x \<Rightarrow> Inl (Error (''Failed to execute order: '' @ message x))
                        | Inr orderResult \<Rightarrow> Inr orderResult))"
    have "\<exists>m. r = Inl (Error (''Failed to execute order: '' @ m))"
      if "exchange e rq = Inr data" "js_get data ''ret_code'' \<noteq> JNum 0" for data
      using order_reply_rejected [OF that(2), of rt p] that(1) out r by auto
    then have fails: "\<forall>data. exchange e rq = Inr data \<and> js_get data ''ret_code'' \<noteq> JNum 0 \<longrightarrow>
        (\<exists>m. r = Inl (Error (''Failed to execute order: '' @ m)))"
      by blast
    from rq url have "post_url rq = MAINNET_URL @ ''/v2/private/order/create''"
      by simp
    with rq(1,3) False fails w' show ?thesis
      by (intro exI [of _ "[rq]"] conjI disjI2 exI [of _ rq]) simp_all
  qed
qed


lemma orderParams_flag:
  "orderParams alertData b apiKey = Inr p \<Longrightarrow> js_get p ''testnet'' = js_get b ''test_mode''"
  by (auto simp: orderParams_def split: if_splits)

text \<open>
  The body of \<open>try\<close> either gets as far as placing the order assembled from the alert, the
  bot and the credential, or leaves the store and the request log as they were.
\<close>

lemma try_block_placed:
  assumes "try_block rt e w req = (r, w')"
  shows "(\<exists>webhook alertData apiKey p.
      select_webhook e w (webhookToken req) = Some webhook \<and> json req = Inr alertData
      \<and> \<not> nullish (js_get webhook ''bots'')
      \<and> select_api_key e w (js_get webhook ''user_id'') = Some apiKey
      \<and> orderParams alertData (js_get webhook ''bots'') apiKey = Inr p) \<or> w' = w"
proof (cases "select_webhook e w (webhookToken req)")
  case None
  with assms show ?thesis by (simp add: try_block_def)
next
  case (Some webhook)
  show ?thesis
  proof (cases "json req")
    case (Inl m)
    with assms Some show ?thesis by (simp add: try_block_def)
  next
    case (Inr alertData)
    show ?thesis
    proof (cases "nullish (js_get webhook ''bots'')")
      case True
      with assms Some Inr show ?thesis by (simp add: try_block_def)
    next
      case False
      show ?thesis
      proof (cases "select_api_key e w (js_get webhook ''user_id'')")
        case None
        with assms Some Inr False show ?thesis by (simp add: try_block_def)
      next
        case api: (Some apiKey)
        show ?thesis
        proof (cases "orderParams alertData (js_get webhook ''bots'') apiKey")
          case (Inl x)
          with assms Some Inr False api show ?thesis by (simp add: try_block_def)
        next
          case p: (Inr p)
          with Some Inr False api show ?thesis by blast
        qed
      qed
    qed
  qed
qed

text \<open>
  What the body of \<open>try\<close> sends: a request is sent only through a webhook that was found and
  whose bot is live, and a request the exchange rejects ends in the client's error with
  nothing written to the store.
\<close>

lemma try_block_sent:
  assumes "try_block rt e w req = (r, w')"
  shows "\<exists>sent. posts w' = posts w @ sent
      \<and> (sent = [] \<or> (\<exists>rq webhook. sent = [rq]
            \<and> select_webhook e w (webhookToken req) = Some webhook
            \<and> \<not> truthy (js_get (js_get webhook ''bots'') ''test_mode'')
            \<and> post_url rq = MAINNET_URL @ ''/v2/private/order/create''
            \<and> js_get (post_data rq) ''time_in_force'' = JStr ''GoodTillCancel''
            \<and> (\<forall>data. exchange e rq = Inr data \<and> js_get data ''ret_code'' \<noteq> JNum 0 \<longrightarrow>
                  (\<exists>m. r = Inl (Error (''Failed to execute order: '' @ m)))
                  \<and> w' = w\<lparr>posts := posts w @ sent\<rparr>)))"
proof -
  from try_block_placed [OF assms]
  consider (placed) webhook alertData apiKey p where
      "select_webhook e w (webhookToken req) = Some webhook" "json req = Inr alertData"
      "\<not> nullish (js_get webhook ''bots'')"
      "select_api_key e w (js_get webhook ''user_id'') = Some apiKey"
      "orderParams alertData (js_get webhook ''bots'') apiKey = Inr p"
    | (early) "w' = w"
    by blast
  then show ?thesis
  proof cases
    case early
    then have "posts w' = posts w @ []" by simp
    then show ?thesis by blast
  next
    case placed
    let ?b = "js_get webhook ''bots''"
    obtain r1 w1 where po: "place_order rt e ?b p w = (r1, w1)"
      by (cases "place_order rt e ?b p w")
    from place_order_sent [OF po orderParams_flag [OF placed(5)]]
    obtain sent where w1: "w1 = w\<lparr>posts := posts w @ sent\<rparr>"
      and sent: "sent = [] \<or> (\<exists>rq. sent = [rq]
            \<and> \<not> truthy (js_get ?b ''test_mode'')
            \<and> post_url rq = MAINNET_URL @ ''/v2/private/order/create''
            \<and> js_get (post_data rq) ''time_in_force'' = JStr ''GoodTillCancel''
            \<and> (\<forall>data. exchange e rq = Inr data \<and> js_get data ''ret_code'' \<noteq> JNum 0 \<longrightarrow>
                  (\<exists>m. r1 = Inl (Error (''Failed to execute order: '' @ m)))))"
      by blast
    have tb: "(r, w') = (case r1 of
         Inl x \<Rightarrow> (Inl x, w1)
       | Inr orderResult \<Rightarrow>
           (Inr (fst (record_and_respond rt e webhook ?b orderResult w1)),
            snd (record_and_respond rt e webhook ?b orderResult w1)))"
      using assms placed po
      by (simp add: try_block_def Let_def case_prod_beta split: sum.splits)
    have posts: "posts w' = posts w @ sent"
      using tb w1 by (cases r1) (simp_all add: record_and_respond_frame)
    have failed: "r = Inl x \<and> w' = w\<lparr>posts := posts w @ sent\<rparr>" if "r1 = Inl x" for x
      using tb w1 that by simp
    from sent show ?thesis
    proof
      assume "sent = []"
      with posts show ?thesis by blast
    next
      assume "\<exists>rq. sent = [rq]
            \<and> \<not> truthy (js_get ?b ''test_mode'')
            \<and> post_url rq = MAINNET_URL @ ''/v2/private/order/create''
            \<and> js_get (post_data rq) ''time_in_force'' = JStr ''GoodTillCancel''
            \<and> (\<forall>data. exchange e rq = Inr data \<and> js_get data ''ret_code'' \<noteq> JNum 0 \<longrightarrow>
                  (\<exists>m. r1 = Inl (Error (''Failed to execute order: '' @ m))))"
      then obtain rq where rq: "sent = [rq]" "\<not> truthy (js_get ?b ''test_mode'')"
          "post_url rq = MAINNET_URL @ ''/v2/private/order/create''"
          "js_get (post_data rq) ''time_in_force'' = JStr ''GoodTillCancel''"
        and rej: "\<forall>data. exchange e rq = Inr data \<and> js_get data ''ret_code'' \<noteq> JNum 0 \<longrightarrow>
                  (\<exists>m. r1 = Inl (Error (''Failed to execute order: '' @ m)))"
        by blast
      have "\<forall>data. exchange e rq = Inr data \<and> js_get data ''ret_code'' \<noteq> JNum 0 \<longrightarrow>
          (\<exists>m. r = Inl (Error (''Failed to execute order: '' @ m)))
          \<and> w' = w\<lparr>posts := posts w @ sent\<rparr>"
        using rej failed by blast
      with posts rq placed(1) show ?thesis
        by (intro exI [of _ sent] conjI disjI2 exI [of _ rq] exI [of _ webhook]) simp_all
    qed
  qed
qed

text \<open>And for the handler.\<close>

lemma processAlert_sent:
  "\<exists>sent. posts (snd (processAlert rt e w req)) = posts w @ sent
      \<and> (sent = [] \<or> (\<exists>rq webhook. sent = [rq]
            \<and> select_webhook e w (webhookToken req) = Some webhook
            \<and> \<not> truthy (js_get (js_get webhook ''bots'') ''test_mode'')
            \<and> post_url rq = MAINNET_URL @ ''/v2/private/order/create''
            \<and> js_get (post_data rq) ''time_in_force'' = JStr ''GoodTillCancel''
            \<and> (\<forall>data. exchange e rq = Inr data \<and> js_get data ''ret_code'' \<noteq> JNum 0 \<longrightarrow>
                  (\<exists>m. fst (processAlert rt e w req)
                     = json_response 500 (JObj [(''error'', JStr (''Failed to execute order: '' @ m))]))
                  \<and> snd (processAlert rt e w req) = w\<lparr>posts := posts w @ sent\<rparr>)))"
proof (cases "http_method req = ''POST'' \<and> \<not> unset (SUPABASE_URL e) \<and> \<not> unset (SUPABASE_SERVICE_KEY e)")
  case False
  then have "posts (snd (processAlert rt e w req)) = posts w @ []"
    by (auto simp: processAlert_def)
  then show ?thesis by blast
next
  case True
  obtain r w' where tb: "try_block rt e w req = (r, w')"
    by (cases "try_block rt e w req")
  from True tb have pa: "processAlert rt e w req =
      (case r of Inr x \<Rightarrow> (x, w') | Inl x \<Rightarrow> (json_response 500 (JObj [(''error'', JStr (message x))]), w'))"
    by (simp add: processAlert_running split: sum.splits)
  then have w': "snd (processAlert rt e w req) = w'"
    by (cases r) simp_all
  have failed: "fst (processAlert rt e w req)
      = json_response 500 (JObj [(''error'', JStr (''Failed to execute order: '' @ m))])"
    if "r = Inl (Error (''Failed to execute order: '' @ m))" for m
    using pa that by simp
  from try_block_sent [OF tb] obtain sent where posts: "posts w' = posts w @ sent"
    and sent: "sent = [] \<or> (\<exists>rq webhook. sent = [rq]
            \<and> select_webhook e w (webhookToken req) = Some webhook
            \<and> \<not> truthy (js_get (js_get webhook ''bots'') ''test_mode'')
            \<and> post_url rq = MAINNET_URL @ ''/v2/private/order/create''
            \<and> js_get (post_data rq) ''time_in_force'' = JStr ''GoodTillCancel''
            \<and> (\<forall>data. exchange e rq = Inr data \<and> js_get data ''ret_code'' \<noteq> JNum 0 \<longrightarrow>
                  (\<exists>m. r = Inl (Error (''Failed to execute order: '' @ m)))
                  \<and> w' = w\<lparr>posts := posts w @ sent\<rparr>))"
    by blast
  from sent show ?thesis
  proof
    assume "sent = []"
    with posts w' show ?thesis by auto
  next
    assume "\<exists>rq webhook. sent = [rq]
            \<and> select_webhook e w (webhookToken req) = Some webhook
            \<and> \<not> truthy (js_get (js_get webhook ''bots'') ''test_mode'')
            \<and> post_url rq = MAINNET_URL @ ''/v2/private/order/create''
            \<and> js_get (post_data rq) ''time_in_force'' = JStr ''GoodTillCancel''
            \<and> (\<forall>data. exchange e rq = Inr data \<and> js_get data ''ret_code'' \<noteq> JNum 0 \<longrightarrow>
                  (\<exists>m. r = Inl (Error (''Failed to execute order: '' @ m)))
                  \<and> w' = w\<lparr>posts := posts w @ sent\<rparr>)"
    then obtain rq webhook where rq: "sent = [rq]"
        "select_webhook e w (webhookToken req) = Some webhook"
        "\<not> truthy (js_get (js_get webhook ''bots'') ''test_mode'')"
        "post_url rq = MAINNET_URL @ ''/v2/private/order/create''"
        "js_get (post_data rq) ''time_in_force'' = JStr ''GoodTillCancel''"
      and rej: "\<forall>data. exchange e rq = Inr data \<and> js_get data ''ret_code'' \<noteq> JNum 0 \<longrightarrow>
                  (\<exists>m. r = Inl (Error (''Failed to execute order: '' @ m)))
                  \<and> w' = w\<lparr>posts := posts w @ sent\<rparr>"
      by blast
    have "\<forall>data. exchange e rq = Inr data \<and> js_get data ''ret_code'' \<noteq> JNum 0 \<longrightarrow>
        (\<exists>m. fst (processAlert rt e w req)
           = json_response 500 (JObj [(''error'', JStr (''Failed to execute order: '' @ m))]))
        \<and> snd (processAlert rt e w req) = w\<lparr>posts := posts w @ sent\<rparr>"
      using rej failed w' by metis
    with posts w' rq show ?thesis
      by (intro exI [of _ sent] conjI disjI2 exI [of _ rq] exI [of _ webhook]) simp_all
  qed
qed


text \<open>The example's live bot against an exchange that accepts the order.\<close>

lemma live_order_accepted:
  "map_prod id trades (processAlert demo_runtime
      (demo_env\<lparr>exchange := (\<lambda>rq. Inr (JObj [(''ret_code'', JNum 0),
         (''result'', JObj [(''order_id'', JStr ''o-1''), (''order_status'', JStr ''Created'')])]))\<rparr>)
      (demo_world False)
      (demo_request ''https://h/.netlify/functions/processAlert/V1StGXR8_Z5jdHi6B-myTV1StGXR8_Z5''))
     = (json_response 200 (JObj
         [(''success'', JBool True), (''orderId'', JStr ''o-1''), (''status'', JStr ''Created''),
          (''testMode'', JBool False)]),
        [JObj [(''user_id'', JStr ''u1''), (''bot_id'', JStr ''b1''), (''symbol'', JStr ''BTCUSDT''),
          (''side'', JStr ''Sell''), (''order_type'', JStr ''Market''), (''quantity'', JStr ''0.001''),
          (''price'', JUndefined), (''order_id'', JStr ''o-1''), (''status'', JStr ''Created''),
          (''created_at'', JNum 1700000000000)]])"
  by (simp add: handler_defs demo_defs exchange_defs Let_def digits.simps)

section \<open>A rejected order\<close>

text \<open>
  C3. The handler sent a request to the exchange and the exchange answered it with a
  return code other than \<open>0\<close>. Then the token was valid and the bot not in test mode, the
  caller gets a 500 whose error starts with \<open>Failed to execute order: \<close>, and the store is as
  it was but for the request logged: no trade row, no update of the bot.
\<close>

theorem vendor_error_fails_without_trade:
  assumes sent: "posts (snd (processAlert rt e w req)) = posts w @ sent"
      and rq: "rq \<in> set sent"
      and reply: "exchange e rq = Inr data"
      and rejected: "js_get data ''ret_code'' \<noteq> JNum 0"
  shows "status (fst (processAlert rt e w req)) = 500
       \<and> (\<exists>m. body (fst (processAlert rt e w req))
               = Some (JObj [(''error'', JStr (''Failed to execute order: '' @ m))]))
       \<and> trades (snd (processAlert rt e w req)) = trades w
       \<and> bots (snd (processAlert rt e w req)) = bots w
       \<and> snd (processAlert rt e w req) = w\<lparr>posts := posts w @ sent\<rparr>
       \<and> (\<exists>webhook. select_webhook e w (webhookToken req) = Some webhook
            \<and> \<not> truthy (js_get (js_get webhook ''bots'') ''test_mode''))"
proof -
  from processAlert_sent [of rt e w req] sent rq
  obtain rq' webhook where one: "sent = [rq']"
      and found: "select_webhook e w (webhookToken req) = Some webhook"
        "\<not> truthy (js_get (js_get webhook ''bots'') ''test_mode'')"
      and fails: "\<forall>data. exchange e rq' = Inr data \<and> js_get data ''ret_code'' \<noteq> JNum 0 \<longrightarrow>
          (\<exists>m. fst (processAlert rt e w req)
             = json_response 500 (JObj [(''error'', JStr (''Failed to execute order: '' @ m))]))
          \<and> snd (processAlert rt e w req) = w\<lparr>posts := posts w @ sent\<rparr>"
    by auto
  from one rq have "rq' = rq" by simp
  with fails reply rejected obtain m where
      r: "fst (processAlert rt e w req)
        = json_response 500 (JObj [(''error'', JStr (''Failed to execute order: '' @ m))])"
      and w': "snd (processAlert rt e w req) = w\<lparr>posts := posts w @ sent\<rparr>"
    by blast
  from r have "status (fst (processAlert rt e w req)) = 500"
    and "body (fst (processAlert rt e w req))
        = Some (JObj [(''error'', JStr (''Failed to execute order: '' @ m))])"
    by (simp_all add: json_response_def)
  moreover from w' have "trades (snd (processAlert rt e w req)) = trades w"
    and "bots (snd (processAlert rt e w req)) = bots w"
    by simp_all
  ultimately show ?thesis
    using w' found by blast
qed

text \<open>
  The example's live bot, whose owner's credential is in the store, against an exchange
  that answers \<open>ret_code\<close> 10001 to the one request it receives.
\<close>

theorem vendor_error_fails_without_trade_witness:
  "length (posts (snd (processAlert demo_runtime demo_env (demo_world False)
      (demo_request ''https://h/.netlify/functions/processAlert/V1StGXR8_Z5jdHi6B-myTV1StGXR8_Z5'')))) = 1
   \<and> status (fst (processAlert demo_runtime demo_env (demo_world False)
      (demo_request ''https://h/.netlify/functions/processAlert/V1StGXR8_Z5jdHi6B-myTV1StGXR8_Z5''))) = 500
   \<and> trades (snd (processAlert demo_runtime demo_env (demo_world False)
      (demo_request ''https://h/.netlify/functions/processAlert/V1StGXR8_Z5jdHi6B-myTV1StGXR8_Z5''))) = []"
proof -
  let ?req = "demo_request ''https://h/.netlify/functions/processAlert/V1StGXR8_Z5jdHi6B-myTV1StGXR8_Z5''"
  let ?sent = "posts (snd (processAlert demo_runtime demo_env (demo_world False) ?req))"
  let ?data = "JObj [(''ret_code'', JNum 10001), (''ret_msg'', JStr ''params error'')]"
  have one: "length ?sent = 1"
    by (simp add: handler_defs demo_defs exchange_defs Let_def digits.simps)
  then obtain rq where rq: "?sent = [rq]"
    by (cases ?sent) simp_all
  have sent: "?sent = posts (demo_world False) @ ?sent"
    by (simp add: demo_world_def)
  have member: "rq \<in> set ?sent"
    using rq by simp
  have reply: "exchange demo_env rq = Inr ?data"
    by (simp add: demo_env_def)
  have rejected: "js_get ?data ''ret_code'' \<noteq> JNum 0"
    by simp
  have "trades (demo_world False) = []"
    by (simp add: demo_world_def)
  with vendor_error_fails_without_trade [OF sent member reply rejected] one
  show ?thesis by simp
qed

section \<open>Time in force\<close>

lemma executeBybitOrder_v5_payload_timeInForce:
  assumes "executeBybitOrder_v5_payload rt p = Inr payload"
  shows "js_get (JObj payload) ''timeInForce''
     = (if js_get p ''orderType'' = JStr ''Market'' then JStr ''IOC'' else JStr ''PostOnly'')"
  using assms
  by (auto simp: executeBybitOrder_v5_payload_def Let_def map_of_obj_set split: if_splits)

lemma executeBybitOrder_v5_sent:
  assumes "rq \<in> set (snd (executeBybitOrder_v5 rt get post p))"
  shows "js_get (request_body rq) ''timeInForce''
     = (if js_get p ''orderType'' = JStr ''Market'' then JStr ''IOC'' else JStr ''PostOnly'')"
proof (cases "executeBybitOrder_v5_payload rt p")
  case (Inl x)
  with assms show ?thesis
    by (simp add: executeBybitOrder_v5_def Let_def)
next
  case (Inr payload)
  from assms Inr have "request_body rq = JObj payload"
    by (auto simp: executeBybitOrder_v5_def Let_def split: sum.splits)
  with executeBybitOrder_v5_payload_timeInForce [OF Inr] show ?thesis
    by simp
qed

lemma executeBybitOrder_time_in_force:
  assumes "rq \<in> set (snd (executeBybitOrder rt t ex p))"
  shows "js_get (post_data rq) ''time_in_force'' = JStr ''GoodTillCancel''"
proof -
  obtain r sent where ex: "executeBybitOrder rt t ex p = (r, sent)"
    by (cases "executeBybitOrder rt t ex p")
  from executeBybitOrder_sent [OF ex] assms ex show ?thesis
    by auto
qed

text \<open>The definitions a concrete call of the V5 client unfolds.\<close>

lemmas v5_defs = executeBybitOrder_v5_def executeBybitOrder_v5_payload_def getServerTimestamp_def
  signPost_def order_reply_v5_def to_string_def default_to_def keys_def MAINNET_URL_v5_def
  TESTNET_URL_def DEFAULT_RECV_WINDOW_def

text \<open>
  C8, as the code has it. Every order request the V5 client sends carries \<open>IOC\<close> when the
  order type is \<open>Market\<close> and \<open>PostOnly\<close> with any other order type; every request the legacy
  client sends, and so every request the alert handler sends, carries \<open>GoodTillCancel\<close>.
  The value is a function of the order type alone: neither client reads a time in force
  from its caller.
\<close>

theorem time_in_force_sent:
  "(\<forall>rq\<in>set (snd (executeBybitOrder_v5 rt get post p)).
      js_get (request_body rq) ''timeInForce''
        = (if js_get p ''orderType'' = JStr ''Market'' then JStr ''IOC'' else JStr ''PostOnly''))
   \<and> (\<forall>rq\<in>set (snd (executeBybitOrder rt t ex p)).
        js_get (post_data rq) ''time_in_force'' = JStr ''GoodTillCancel'')
   \<and> (\<exists>sent. posts (snd (processAlert rt e w req)) = posts w @ sent
        \<and> (\<forall>rq\<in>set sent. js_get (post_data rq) ''time_in_force'' = JStr ''GoodTillCancel''))"
proof (intro conjI ballI)
  fix rq assume "rq \<in> set (snd (executeBybitOrder_v5 rt get post p))"
  then show "js_get (request_body rq) ''timeInForce''
      = (if js_get p ''orderType'' = JStr ''Market'' then JStr ''IOC'' else JStr ''PostOnly'')"
    by (rule executeBybitOrder_v5_sent)
next
  fix rq assume "rq \<in> set (snd (executeBybitOrder rt t ex p))"
  then show "js_get (post_data rq) ''time_in_force'' = JStr ''GoodTillCancel''"
    by (rule executeBybitOrder_time_in_force)
next
  from processAlert_sent [of rt e w req]
  show "\<exists>sent. posts (snd (processAlert rt e w req)) = posts w @ sent
      \<and> (\<forall>rq\<in>set sent. js_get (post_data rq) ''time_in_force'' = JStr ''GoodTillCancel'')"
    by (elim exE conjE disjE) auto
qed

text \<open>
  A Market and a Limit order through the V5 client, with credentials, against a time server
  that answers and an exchange that accepts; the caller's own \<open>timeInForce\<close> is not read.
  Then a Market order through the legacy client, and the request of the example's live bot.
\<close>

theorem time_in_force_sent_witness:
  "map (\<lambda>rq. js_get (request_body rq) ''timeInForce'')
     (snd (executeBybitOrder_v5 demo_runtime
        (\<lambda>u. Inr (JObj [(''retCode'', JNum 0), (''time'', JNum 1700000000000)]))
        (\<lambda>rq. Inr (JObj [(''retCode'', JNum 0),
           (''result'', JObj [(''orderId'', JStr ''o-1''), (''orderStatus'', JStr ''New'')])]))
        (JObj [(''apiKey'', JStr ''K''), (''apiSecret'', JStr ''S''), (''symbol'', JStr ''BTCUSDT''),
           (''side'', JStr ''Buy''), (''orderType'', JStr ''Market''), (''quantity'', JNum 1),
           (''timeInForce'', JStr ''GTC'')])))
     = [JStr ''IOC'']
   \<and> map (\<lambda>rq. js_get (request_body rq) ''timeInForce'')
     (snd (executeBybitOrder_v5 demo_runtime
        (\<lambda>u. Inr (JObj [(''retCode'', JNum 0), (''time'', JNum 1700000000000)]))
        (\<lambda>rq. Inr (JObj [(''retCode'', JNum 0),
           (''result'', JObj [(''orderId'', JStr ''o-1''), (''orderStatus'', JStr ''New'')])]))
        (JObj [(''apiKey'', JStr ''K''), (''apiSecret'', JStr ''S''), (''symbol'', JStr ''BTCUSDT''),
           (''side'', JStr ''Buy''), (''orderType'', JStr ''Limit''), (''quantity'', JNum 1),
           (''price'', JNum 50000), (''timeInForce'', JStr ''GTC'')])))
     = [JStr ''PostOnly'']
   \<and> map (\<lambda>rq. js_get (post_data rq) ''time_in_force'')
     (snd (executeBybitOrder demo_runtime 1700000000000
        (\<lambda>rq. Inr (JObj [(''ret_code'', JNum 0),
           (''result'', JObj [(''order_id'', JStr ''o-1''), (''order_status'', JStr ''Created'')])]))
        (JObj [(''apiKey'', JStr ''K''), (''apiSecret'', JStr ''S''), (''symbol'', JStr ''BTCUSDT''),
           (''side'', JStr ''Buy''), (''orderType'', JStr ''Market''), (''quantity'', JNum 1)])))
     = [JStr ''GoodTillCancel'']
   \<and> map (\<lambda>rq. js_get (post_data rq) ''time_in_force'')
     (posts (snd (processAlert demo_runtime demo_env (demo_world False)
        (demo_request ''https://h/.netlify/functions/processAlert/V1StGXR8_Z5jdHi6B-myTV1StGXR8_Z5''))))
     = [JStr ''GoodTillCancel'']"
proof -
  let ?get = "\<lambda>u::string. (Inr (JObj [(''retCode'', JNum 0), (''time'', JNum 1700000000000)])
      :: string + jsval)"
  let ?post = "\<lambda>rq::order_request. (Inr (JObj [(''retCode'', JNum 0),
      (''result'', JObj [(''orderId'', JStr ''o-1''), (''orderStatus'', JStr ''New'')])])
      :: string + jsval)"
  let ?ex = "\<lambda>rq::http_post. (Inr (JObj [(''ret_code'', JNum 0),
      (''result'', JObj [(''order_id'', JStr ''o-1''), (''order_status'', JStr ''Created'')])])
      :: string + jsval)"
  let ?market = "JObj [(''apiKey'', JStr ''K''), (''apiSecret'', JStr ''S''), (''symbol'', JStr ''BTCUSDT''),
      (''side'', JStr ''Buy''), (''orderType'', JStr ''Market''), (''quantity'', JNum 1),
      (''timeInForce'', JStr ''GTC'')]"
  let ?limit = "JObj [(''apiKey'', JStr ''K''), (''apiSecret'', JStr ''S''), (''symbol'', JStr ''BTCUSDT''),
      (''side'', JStr ''Buy''), (''orderType'', JStr ''Limit''), (''quantity'', JNum 1),
      (''price'', JNum 50000), (''timeInForce'', JStr ''GTC'')]"
  let ?legacy = "JObj [(''apiKey'', JStr ''K''), (''apiSecret'', JStr ''S''), (''symbol'', JStr ''BTCUSDT''),
      (''side'', JStr ''Buy''), (''orderType'', JStr ''Market''), (''quantity'', JNum 1)]"
  define ms where "ms = snd (executeBybitOrder_v5 demo_runtime ?get ?post ?market)"
  define ls where "ls = snd (executeBybitOrder_v5 demo_runtime ?get ?post ?limit)"
  define gs where "gs = snd (executeBybitOrder demo_runtime 1700000000000 ?ex ?legacy)"
  have "length ms = 1"
    unfolding ms_def by (simp add: v5_defs demo_runtime_def Let_def digits.simps)
  then obtain m where m: "ms = [m]"
    by (cases ms) simp_all
  have "length ls = 1"
    unfolding ls_def by (simp add: v5_defs demo_runtime_def Let_def digits.simps)
  then obtain l where l: "ls = [l]"
    by (cases ls) simp_all
  have "length gs = 1"
    unfolding gs_def by (simp add: exchange_defs demo_runtime_def Let_def digits.simps)
  then obtain g where g: "gs = [g]"
    by (cases gs) simp_all
  have "\<forall>rq\<in>set ms. js_get (request_body rq) ''timeInForce''
      = (if js_get ?market ''orderType'' = JStr ''Market'' then JStr ''IOC'' else JStr ''PostOnly'')"
    unfolding ms_def
    using time_in_force_sent [of demo_runtime ?get ?post ?market] by (rule conjunct1)
  with m have 1: "map (\<lambda>rq. js_get (request_body rq) ''timeInForce'') ms = [JStr ''IOC'']"
    by simp
  have "\<forall>rq\<in>set ls. js_get (request_body rq) ''timeInForce''
      = (if js_get ?limit ''orderType'' = JStr ''Market'' then JStr ''IOC'' else JStr ''PostOnly'')"
    unfolding ls_def
    using time_in_force_sent [of demo_runtime ?get ?post ?limit] by (rule conjunct1)
  with l have 2: "map (\<lambda>rq. js_get (request_body rq) ''timeInForce'') ls = [JStr ''PostOnly'']"
    by simp
  have "\<forall>rq\<in>set gs. js_get (post_data rq) ''time_in_force'' = JStr ''GoodTillCancel''"
    unfolding gs_def
    using time_in_force_sent [where rt = demo_runtime and t = 1700000000000 and ex = ?ex
        and p = ?legacy]
    by blast
  with g have 3: "map (\<lambda>rq. js_get (post_data rq) ''time_in_force'') gs = [JStr ''GoodTillCancel'']"
    by simp
  define hs where "hs = posts (snd (processAlert demo_runtime demo_env (demo_world False)
      (demo_request ''https://h/.netlify/functions/processAlert/V1StGXR8_Z5jdHi6B-myTV1StGXR8_Z5'')))"
  have "length hs = 1"
    unfolding hs_def by (simp add: handler_defs demo_defs exchange_defs Let_def digits.simps)
  then obtain h where h: "hs = [h]"
    by (cases hs) simp_all
  have "posts (demo_world False) = []"
    by (simp add: demo_world_def)
  with time_in_force_sent [where rt = demo_runtime and e = demo_env and w = "demo_world False"
      and req = "demo_request ''https://h/.netlify/functions/processAlert/V1StGXR8_Z5jdHi6B-myTV1StGXR8_Z5''"]
  have "\<forall>rq\<in>set hs. js_get (post_data rq) ''time_in_force'' = JStr ''GoodTillCancel''"
    unfolding hs_def by auto
  with h have 4: "map (\<lambda>rq. js_get (post_data rq) ''time_in_force'') hs = [JStr ''GoodTillCancel'']"
    by simp
  from 1 2 3 4 show ?thesis
    unfolding ms_def ls_def gs_def hs_def by (intro conjI)
qed

text \<open>
  The claim fails on the client the alert handler imports. The example's live bot, whose
  default order type is \<open>Market\<close>, with its owner's credentials and an exchange that accepts:
  the one request sent carries \<open>GoodTillCancel\<close>, not an immediate-or-cancel value, and the
  caller is answered 200. A Limit order through the same client, with credentials, carries
  \<open>GoodTillCancel\<close> too, not a post-only value.
\<close>

theorem time_in_force_legacy_counterexample:
  "map (\<lambda>rq. (js_get (post_data rq) ''order_type'', js_get (post_data rq) ''time_in_force''))
     (posts (snd (processAlert demo_runtime
        (demo_env\<lparr>exchange := (\<lambda>rq. Inr (JObj [(''ret_code'', JNum 0),
           (''result'', JObj [(''order_id'', JStr ''o-1''), (''order_status'', JStr ''Created'')])]))\<rparr>)
        (demo_world False)
        (demo_request ''https://h/.netlify/functions/processAlert/V1StGXR8_Z5jdHi6B-myTV1StGXR8_Z5''))))
     = [(JStr ''Market'', JStr ''GoodTillCancel'')]
   \<and> status (fst (processAlert demo_runtime
        (demo_env\<lparr>exchange := (\<lambda>rq. Inr (JObj [(''ret_code'', JNum 0),
           (''result'', JObj [(''order_id'', JStr ''o-1''), (''order_status'', JStr ''Created'')])]))\<rparr>)
        (demo_world False)
        (demo_request ''https://h/.netlify/functions/processAlert/V1StGXR8_Z5jdHi6B-myTV1StGXR8_Z5'')))
     = 200
   \<and> map_prod (map_sum id (\<lambda>r. js_get r ''orderId''))
        (map (\<lambda>rq. (js_get (post_data rq) ''order_type'', js_get (post_data rq) ''time_in_force'')))
        (executeBybitOrder demo_runtime 1700000000000
          (\<lambda>rq. Inr (JObj [(''ret_code'', JNum 0),
             (''result'', JObj [(''order_id'', JStr ''o-2''), (''order_status'', JStr ''Created'')])]))
          (JObj [(''apiKey'', JStr ''K''), (''apiSecret'', JStr ''S''), (''symbol'', JStr ''BTCUSDT''),
             (''side'', JStr ''Buy''), (''orderType'', JStr ''Limit''), (''quantity'', JNum 1),
             (''price'', JNum 50000)]))
     = (Inr (JStr ''o-2''), [(JStr ''Limit'', JStr ''GoodTillCancel'')])"
  by (simp add: handler_defs demo_defs exchange_defs Let_def digits.simps json_response_def)

section \<open>The credential's flag\<close>
















section \<open>One parameter replaced\<close>













section \<open>The legacy signature under a changed parameter\<close>




end
